theory Spec2Isabelle
  imports Complex_Main "HOL-Library.Log_Nat"
begin

section \<open>JavaScript numbers\<close>

text \<open>
  The relayer of \<^verbatim>\<open>packages/relayer/src/relayer.ts\<close> multiplies the value of
  \<^verbatim>\<open>Math.random()\<close> by a constant, reads numbers back with
  \<^verbatim>\<open>Number(x.toString())\<close>, serialises object literals with \<^verbatim>\<open>JSON.stringify\<close> and
  hashes the text with \<^verbatim>\<open>sha3.sha3_256\<close>.

  A finite JavaScript number is a double: a real number \<open>m * 2 ^ p\<close> with an integer
  \<open>m\<close> of magnitude below \<open>2 ^ 53\<close> and \<open>p\<close> from \<open>-1074\<close> upwards. \<open>round_double\<close> is
  the double nearest to a real number, the even one of two that are equally near. The
  values that overflow to \<^verbatim>\<open>Infinity\<close> (magnitude from \<open>2 ^ 1024 - 2 ^ 970\<close> upwards) do
  not arise from a \<^verbatim>\<open>Math.random()\<close> below 1 and are not modelled, and neither is
  \<^verbatim>\<open>NaN\<close>, except as the result of \<^verbatim>\<open>%\<close> below.
\<close>

definition pow2 :: "int \<Rightarrow> real" where
  "pow2 p = (if 0 \<le> p then 2 ^ nat p else 1 / 2 ^ nat (- p))"

text \<open>The binary exponent of a positive real: \<open>pow2 (exponent2 x) \<le> x < pow2 (exponent2 x + 1)\<close>.\<close>

definition exponent2 :: "real \<Rightarrow> int" where
  "exponent2 x = (if 1 \<le> x then bitlen \<lfloor>x\<rfloor> - 1 else - bitlen (\<lceil>1 / x\<rceil> - 1))"

definition round_half_even :: "real \<Rightarrow> int" where
  "round_half_even q =
     (let f = \<lfloor>q\<rfloor>; d = q - of_int f
      in if d < 1 / 2 then f else if 1 / 2 < d then f + 1 else if even f then f else f + 1)"

definition round_double :: "real \<Rightarrow> real" where
  "round_double x =
     (if x = 0 then 0
      else
        let a = \<bar>x\<bar>;
            p = max (exponent2 a - 52) (- 1074)
        in sgn x * (of_int (round_half_even (a / pow2 p)) * pow2 p))"

text \<open>\<^verbatim>\<open>a * b\<close> on numbers.\<close>

definition js_times :: "real \<Rightarrow> real \<Rightarrow> real" where
  "js_times a b = round_double (a * b)"

text \<open>The number that the decimal numeral of an integer denotes; it is an integer.\<close>

definition number_value :: "int \<Rightarrow> int" where
  "number_value i = \<lfloor>round_double (of_int i)\<rfloor>"

definition safe_integer :: "int \<Rightarrow> bool" where
  "safe_integer i \<longleftrightarrow> \<bar>i\<bar> < 2 ^ 53"

text \<open>
  The arguments that the source types \<^verbatim>\<open>bigint | string | number\<close> and
  \<^verbatim>\<open>string | number\<close>: \<open>JSNumber i\<close> is the number that the numeral of \<open>i\<close> denotes,
  \<open>JSBigInt i\<close> the bigint \<open>i\<close>. Numbers with a fraction and strings are not modelled:
  what \<^verbatim>\<open>Number\<close> makes of an arbitrary string is not an integer in general.
  \<open>numeric_value\<close> is the integer that was written.
\<close>

datatype numeric = JSNumber int | JSBigInt int

fun numeric_value :: "numeric \<Rightarrow> int" where
  "numeric_value (JSNumber i) = i"
| "numeric_value (JSBigInt i) = i"

text \<open>
  \<^verbatim>\<open>Number(x.toString())\<close>: the text of a bigint is its numeral, which \<^verbatim>\<open>Number\<close>
  rounds to a double; the text of a number reads back as the same number.
\<close>

fun Number_toString :: "numeric \<Rightarrow> int" where
  "Number_toString (JSNumber i) = number_value i"
| "Number_toString (JSBigInt i) = number_value i"

section \<open>\<^verbatim>\<open>JSON.stringify\<close>\<close>

datatype json = JNull | JNum int | JStr string | JObj "(string \<times> json) list"

definition digit_char :: "nat \<Rightarrow> char" where
  "digit_char d = char_of (48 + d)"

text \<open>The decimal numeral of a natural number, given as an integer.\<close>

function decimal :: "int \<Rightarrow> string" where
  "decimal n =
     (if n < 10 then [digit_char (nat n)]
      else decimal (n div 10) @ [digit_char (nat (n mod 10))])"
  by pat_completeness auto
termination
  by (relation "measure nat") auto

declare decimal.simps [simp del]

text \<open>
  \<^verbatim>\<open>Number::toString\<close> on an integer. Up to \<open>2 ^ 53\<close> the digits are those of the
  integer. Beyond, they are the fewest digits \<open>s\<close> for which \<open>s * 10 ^ j\<close> reads back as
  the same number, the nearest such value if there are two, followed by \<open>j\<close> zeros; from
  22 digits on the text is in exponent notation.
\<close>

definition candidate :: "int \<Rightarrow> int \<Rightarrow> int option" where
  "candidate x p =
     (let lo = (x div p) * p;
          hi = lo + p;
          vlo = (number_value lo = x);
          vhi = (number_value hi = x)
      in if vlo \<and> vhi then
           Some (if x - lo < hi - x then lo
                 else if hi - x < x - lo then hi
                 else if even (x div p) then lo else hi)
         else if vlo then Some lo
         else if vhi then Some hi
         else None)"

fun first_candidate :: "int \<Rightarrow> int list \<Rightarrow> int" where
  "first_candidate x [] = x"
| "first_candidate x (p # ps) =
     (case candidate x p of Some c \<Rightarrow> c | None \<Rightarrow> first_candidate x ps)"

definition shortest :: "int \<Rightarrow> int" where
  "shortest x =
     (let D = length (decimal x)
      in first_candidate x (map (\<lambda>k. 10 ^ (D - k)) [1..<Suc D]))"

definition strip_zeros :: "string \<Rightarrow> string" where
  "strip_zeros s = rev (dropWhile (\<lambda>c. c = CHR ''0'') (rev s))"

definition JSON_positive :: "int \<Rightarrow> string" where
  "JSON_positive x =
     (if x \<le> 2 ^ 53 then decimal x
      else
        let ds = decimal (shortest x);
            n = length ds
        in if n \<le> 21 then ds
           else
             let s = strip_zeros ds
             in hd s # (if 1 < length s then CHR ''.'' # tl s else []) @ ''e+'' @ decimal (int n - 1))"

definition JSON_number :: "int \<Rightarrow> string" where
  "JSON_number i = (if i < 0 then ''-'' @ JSON_positive (- i) else JSON_positive i)"

definition hex_digit :: "nat \<Rightarrow> char" where
  "hex_digit d = (if d < 10 then char_of (48 + d) else char_of (87 + d))"

text \<open>
  \<^verbatim>\<open>QuoteJSONString\<close>: the double quote and the backslash are escaped with a backslash,
  backspace, tab, line feed, form feed and carriage return have their two-character
  escapes, every other code unit below \<^verbatim>\<open>0x20\<close> is written \<^verbatim>\<open>\u00XX\<close> in lower-case
  hexadecimal, and everything else is copied. A \<open>char\<close> is a code unit below 256.
\<close>

definition quote_char :: "char \<Rightarrow> string" where
  "quote_char c =
     (let n = (of_char c :: nat) in
      if n = 0x08 then [CHR 0x5C, CHR ''b'']
      else if n = 0x09 then [CHR 0x5C, CHR ''t'']
      else if n = 0x0A then [CHR 0x5C, CHR ''n'']
      else if n = 0x0C then [CHR 0x5C, CHR ''f'']
      else if n = 0x0D then [CHR 0x5C, CHR ''r'']
      else if n = 0x22 then [CHR 0x5C, CHR 0x22]
      else if n = 0x5C then [CHR 0x5C, CHR 0x5C]
      else if n < 0x20 then [CHR 0x5C, CHR ''u'', CHR ''0'', CHR ''0'', hex_digit (n div 16), hex_digit (n mod 16)]
      else [c])"

definition JSON_quote :: "string \<Rightarrow> string" where
  "JSON_quote s = [CHR 0x22] @ concat (map quote_char s) @ [CHR 0x22]"

text \<open>
  An object is the list of its own enumerable properties in the order
  \<^verbatim>\<open>JSON.stringify\<close> visits them; for the object literals of the relayer that is the
  order in which the literal names them.
\<close>

fun JSON_stringify :: "json \<Rightarrow> string" and JSON_members :: "(string \<times> json) list \<Rightarrow> string" where
  "JSON_stringify JNull = ''null''"
| "JSON_stringify (JNum i) = JSON_number i"
| "JSON_stringify (JStr s) = JSON_quote s"
| "JSON_stringify (JObj ms) = ''{'' @ JSON_members ms @ ''}''"
| "JSON_members [] = []"
| "JSON_members [(k, v)] = JSON_quote k @ '':'' @ JSON_stringify v"
| "JSON_members ((k, v) # m # ms) =
     JSON_quote k @ '':'' @ JSON_stringify v @ '','' @ JSON_members (m # ms)"

section \<open>Data model\<close>

text \<open>
  Modelled from the spec: the declarations of \<^verbatim>\<open>Node\<close>, \<^verbatim>\<open>SessionHeader\<close>,
  \<^verbatim>\<open>Session\<close>, \<^verbatim>\<open>PocketAAT\<close> and \<^verbatim>\<open>RelayHeaders\<close> in
  \<^verbatim>\<open>@pokt-foundation/pocketjs-types\<close> are not among the sources. The records have
  the fields that the relayer reads, which are the fields that the data model of the
  specification lists: a node is its public key, service URL and chains; a session is a
  header (application public key, chain, block height) and an ordered list of nodes; an
  AAT is a version, two public keys and the application signature; the headers of a
  payload are string-valued properties, here in the order in which
  \<^verbatim>\<open>JSON.stringify\<close> visits them. The session block height is read through
  \<^verbatim>\<open>toString()\<close> and \<^verbatim>\<open>Number\<close>, so it is a \<open>numeric\<close>. Sessions, nodes and
  AATs are immutable, as the data model says: a call of \<^verbatim>\<open>relay\<close> reads the same
  values from them throughout.
\<close>

record Node =
  publicKey :: string
  serviceUrl :: string
  chains :: "string list"

record SessionHeader =
  header_applicationPubKey :: string
  header_chain :: string
  header_sessionBlockHeight :: numeric

record Session =
  header :: SessionHeader
  nodes :: "Node list"

record PocketAAT =
  version :: string
  clientPublicKey :: string
  applicationPublicKey :: string
  applicationSignature :: string

type_synonym RelayHeaders = "(string \<times> string) list"

text \<open>
  The objects that \<^verbatim>\<open>relay\<close> builds: \<^verbatim>\<open>relayPayload\<close>, \<^verbatim>\<open>relayMeta\<close>,
  \<^verbatim>\<open>relayProof\<close> with its \<^verbatim>\<open>aat\<close>, and \<^verbatim>\<open>relayRequest\<close>. A field carries the
  name of its property after a prefix (\<open>payload_\<close>, \<open>meta_\<close>, \<open>proof_\<close>, \<open>aat_\<close>,
  \<open>request_\<close>).
\<close>

record RelayPayload =
  payload_data :: string
  payload_method :: string
  payload_path :: string
  payload_headers :: "RelayHeaders option"

record RelayMeta =
  meta_block_height :: int

record ProofAAT =
  aat_version :: string
  aat_app_pub_key :: string
  aat_client_pub_key :: string
  aat_signature :: string

record RelayProof =
  proof_entropy :: int
  proof_session_block_height :: int
  proof_servicer_pub_key :: string
  proof_blockchain :: string
  proof_aat :: ProofAAT
  proof_signature :: string
  proof_request_hash :: string

record RelayRequest =
  request_payload :: RelayPayload
  request_meta :: RelayMeta
  request_proof :: RelayProof

subsection \<open>Errors\<close>

text \<open>
  Every \<^verbatim>\<open>throw new Error(message)\<close> of the relayer, and every rejection of a
  collaborator, is a value \<open>Inl (Error message)\<close>.
\<close>

datatype error = Error string

type_synonym 'a result = "error + 'a"

definition MissingSignerError :: error where
  "MissingSignerError = Error ''You need a signer to send a relay''"

definition NoServiceNodeError :: error where
  "NoServiceNodeError = Error (''Couldn'' @ [CHR 0x27] @ ''t find a service node.'')"

definition NodeNotInSessionError :: error where
  "NodeNotInSessionError = Error ''Node is not in the current session''"

subsection \<open>Collaborators and effects\<close>

text \<open>
  The signer (\<^verbatim>\<open>KeyManager | AbstractSigner\<close>) and the provider
  (\<^verbatim>\<open>JsonRpcProvider\<close>) are supplied by the caller; their calls may fail. The
  hash \<^verbatim>\<open>sha3.sha3_256\<close> of \<^verbatim>\<open>js-sha3\<close>, the sequence of values that
  \<^verbatim>\<open>Math.random()\<close> returns and \<^verbatim>\<open>validateRelayResponse\<close> of \<^verbatim>\<open>./errors\<close>
  are parameters of the functions that use them. A value of \<^verbatim>\<open>Math.random()\<close> is a
  double, given as the real number it is.

  The state counts the calls of \<^verbatim>\<open>Math.random()\<close> and records, in order, every text
  that was hashed, every text handed to the signer and every request handed to the
  provider.

  \<^verbatim>\<open>relay\<close> keeps the \<^verbatim>\<open>headers\<close> object of its caller by reference and gives up
  control once before it reads the object for the last time, at
  \<^verbatim>\<open>await keyManager.sign(proofBytes)\<close>. The parameter \<open>meanwhile\<close> is what the rest
  of the program does to the properties of that object until \<^verbatim>\<open>relay\<close> resumes: the
  identity when nobody touches it. The other values that \<^verbatim>\<open>relay\<close> reads after that
  point are strings, numbers or immutable.
\<close>

record Signer =
  sign :: "string \<Rightarrow> string result"
  getPublicKey :: string

record 'raw JsonRpcProvider =
  provider_relay :: "RelayRequest \<Rightarrow> string \<Rightarrow> 'raw result"

datatype event = Hashed string | Signed string | Sent RelayRequest string

record world =
  drawn :: nat
  trace :: "event list"

definition Math_random :: "(nat \<Rightarrow> real) \<Rightarrow> world \<Rightarrow> real \<times> world" where
  "Math_random rs w = (rs (drawn w), w\<lparr>drawn := Suc (drawn w)\<rparr>)"

text \<open>\<^verbatim>\<open>sha3.sha3_256.create()\<close>, \<^verbatim>\<open>update(text)\<close>, \<^verbatim>\<open>hex()\<close>.\<close>

definition sha3_256_hex :: "(string \<Rightarrow> string) \<Rightarrow> string \<Rightarrow> world \<Rightarrow> string \<times> world" where
  "sha3_256_hex H text w = (H text, w\<lparr>trace := trace w @ [Hashed text]\<rparr>)"

fun hashed :: "event list \<Rightarrow> string list" where
  "hashed [] = []"
| "hashed (Hashed t # es) = t # hashed es"
| "hashed (e # es) = hashed es"

fun signed :: "event list \<Rightarrow> string list" where
  "signed [] = []"
| "signed (Signed t # es) = t # signed es"
| "signed (e # es) = signed es"

fun sent :: "event list \<Rightarrow> (RelayRequest \<times> string) list" where
  "sent [] = []"
| "sent (Sent r u # es) = (r, u) # sent es"
| "sent (e # es) = sent es"

section \<open>The relayer\<close>

subsection \<open>Node selection\<close>

text \<open>
  \<^verbatim>\<open>a % b\<close> on integers: the sign of the dividend, and \<^verbatim>\<open>NaN\<close> (here \<open>None\<close>)
  when the divisor is 0.
\<close>

definition js_rem :: "int \<Rightarrow> int \<Rightarrow> int option" where
  "js_rem a b = (if b = 0 then None else Some (sgn a * (\<bar>a\<bar> mod \<bar>b\<bar>)))"

text \<open>\<^verbatim>\<open>xs[i]\<close>: \<^verbatim>\<open>undefined\<close> (here \<open>None\<close>) unless \<open>i\<close> is an index of \<open>xs\<close>.\<close>

definition array_get :: "'a list \<Rightarrow> int option \<Rightarrow> 'a option" where
  "array_get xs i =
     (case i of
        None \<Rightarrow> None
      | Some j \<Rightarrow> if 0 \<le> j \<and> j < int (length xs) then Some (xs ! nat j) else None)"

text \<open>
  \<^verbatim>\<open>getRandomSessionNode\<close> has no \<^verbatim>\<open>throw\<close>: it returns the element at the index
  it computed, or \<^verbatim>\<open>undefined\<close>.
\<close>

definition getRandomSessionNode :: "(nat \<Rightarrow> real) \<Rightarrow> Session \<Rightarrow> world \<Rightarrow> Node option result \<times> world" where
  "getRandomSessionNode rs session w =
     (let nodesInSession = int (length (nodes session));
          (r, w') = Math_random rs w;
          rng = js_rem \<lfloor>js_times r 100\<rfloor> nodesInSession
      in (Inr (array_get (nodes session) rng), w'))"

definition isNodeInSession :: "Session \<Rightarrow> Node \<Rightarrow> bool" where
  "isNodeInSession session node =
     (find (\<lambda>n. publicKey n = publicKey node) (nodes session) \<noteq> None)"

subsection \<open>Hashing\<close>

definition hashRequest :: "(string \<Rightarrow> string) \<Rightarrow> json \<Rightarrow> world \<Rightarrow> string \<times> world" where
  "hashRequest H requestHash w = sha3_256_hex H (JSON_stringify requestHash) w"

text \<open>The object literal \<^verbatim>\<open>token\<close> of \<^verbatim>\<open>hashAAT\<close>.\<close>

definition tokenJSON :: "PocketAAT \<Rightarrow> json" where
  "tokenJSON aat =
     JObj
       [(''version'', JStr (version aat)),
        (''app_pub_key'', JStr (applicationPublicKey aat)),
        (''client_pub_key'', JStr (clientPublicKey aat)),
        (''signature'', JStr '''')]"

definition hashAAT :: "(string \<Rightarrow> string) \<Rightarrow> PocketAAT \<Rightarrow> world \<Rightarrow> string \<times> world" where
  "hashAAT H aat w =
     (let token = tokenJSON aat
      in sha3_256_hex H (JSON_stringify token) w)"

text \<open>The object literal \<^verbatim>\<open>proofJSON\<close>; its last two properties are the two digests.\<close>

definition proofJSON :: "numeric \<Rightarrow> int \<Rightarrow> string \<Rightarrow> string \<Rightarrow> string \<Rightarrow> string \<Rightarrow> json" where
  "proofJSON entropy sessionBlockHeight servicerPublicKey blockchain token request_hash =
     JObj
       [(''entropy'', JNum (Number_toString entropy)),
        (''session_block_height'', JNum (Number_toString (JSNumber sessionBlockHeight))),
        (''servicer_pub_key'', JStr servicerPublicKey),
        (''blockchain'', JStr blockchain),
        (''signature'', JStr ''''),
        (''token'', JStr token),
        (''request_hash'', JStr request_hash)]"

definition generateProofBytes ::
  "(string \<Rightarrow> string) \<Rightarrow> numeric \<Rightarrow> int \<Rightarrow> string \<Rightarrow> string \<Rightarrow> PocketAAT \<Rightarrow> json \<Rightarrow> world
     \<Rightarrow> string \<times> world" where
  "generateProofBytes H entropy sessionBlockHeight servicerPublicKey blockchain pocketAAT requestHash w =
     (let (token, w1) = hashAAT H pocketAAT w;
          (request_hash, w2) = hashRequest H requestHash w1;
          proofJSONStr = JSON_stringify
            (proofJSON entropy sessionBlockHeight servicerPublicKey blockchain token request_hash)
      in sha3_256_hex H proofJSONStr w2)"

subsection \<open>Relay\<close>

definition headers_json :: "RelayHeaders option \<Rightarrow> json" where
  "headers_json headers =
     (case headers of
        None \<Rightarrow> JNull
      | Some hs \<Rightarrow> JObj (map (\<lambda>kv. (fst kv, JStr (snd kv))) hs))"

definition RelayPayload_json :: "RelayPayload \<Rightarrow> json" where
  "RelayPayload_json p =
     JObj
       [(''data'', JStr (payload_data p)),
        (''method'', JStr (payload_method p)),
        (''path'', JStr (payload_path p)),
        (''headers'', headers_json (payload_headers p))]"

definition RelayMeta_json :: "RelayMeta \<Rightarrow> json" where
  "RelayMeta_json m = JObj [(''block_height'', JNum (meta_block_height m))]"

text \<open>The object literal \<^verbatim>\<open>requestHash = { payload: relayPayload, meta: relayMeta }\<close>.\<close>

definition requestHash_json :: "RelayPayload \<Rightarrow> RelayMeta \<Rightarrow> json" where
  "requestHash_json relayPayload relayMeta =
     JObj [(''payload'', RelayPayload_json relayPayload), (''meta'', RelayMeta_json relayMeta)]"

text \<open>
  The static \<^verbatim>\<open>Relayer.relay\<close>. \<open>keyManager\<close> and \<open>node\<close> are \<open>None\<close> when the
  caller passes \<^verbatim>\<open>undefined\<close> or \<^verbatim>\<open>null\<close>. The result carries the state in which
  the call ended, also when it ended in an error. \<open>relayPayload\<close> and \<open>requestHash\<close>
  are the two objects as they are before the signer is awaited, \<open>relayPayload'\<close> and
  \<open>requestHash'\<close> the same two objects as they are after it; the request that is handed
  to the provider is recorded as it is at that moment.
\<close>

definition Relayer_relay ::
  "(string \<Rightarrow> string) \<Rightarrow> (nat \<Rightarrow> real) \<Rightarrow> (RelayHeaders \<Rightarrow> RelayHeaders)
     \<Rightarrow> ('raw \<Rightarrow> 'resp result)
     \<Rightarrow> string \<Rightarrow> string \<Rightarrow> RelayHeaders option \<Rightarrow> Signer option \<Rightarrow> string \<Rightarrow> Node option
     \<Rightarrow> string \<Rightarrow> PocketAAT \<Rightarrow> 'raw JsonRpcProvider \<Rightarrow> Session \<Rightarrow> world
     \<Rightarrow> 'resp result \<times> world" where
  "Relayer_relay H rs meanwhile validateRelayResponse
       blockchain data headers keyManager method node path pocketAAT provider session w =
     (case keyManager of
        None \<Rightarrow> (Inl MissingSignerError, w)
      | Some km \<Rightarrow>
         (case (case node of
                  Some n \<Rightarrow> (Inr (Some n), w)
                | None \<Rightarrow> getRandomSessionNode rs session w) of
            (Inl e, w0) \<Rightarrow> (Inl e, w0)
          | (Inr None, w0) \<Rightarrow> (Inl NoServiceNodeError, w0)
          | (Inr (Some serviceNode), w0) \<Rightarrow>
             if \<not> isNodeInSession session serviceNode then (Inl NodeNotInSessionError, w0)
             else
               let servicerPubKey = publicKey serviceNode;
                   relayPayload = \<lparr>payload_data = data, payload_method = method,
                                   payload_path = path, payload_headers = headers\<rparr>;
                   relayMeta = \<lparr>meta_block_height =
                                  Number_toString (header_sessionBlockHeight (header session))\<rparr>;
                   requestHash = requestHash_json relayPayload relayMeta;
                   (r, w1) = Math_random rs w0;
                   entropy = \<lfloor>js_times r 99999999999999\<rfloor>;
                   (proofBytes, w2) = generateProofBytes H (JSNumber entropy)
                      (Number_toString (header_sessionBlockHeight (header session)))
                      servicerPubKey blockchain pocketAAT requestHash w1;
                   w3 = w2\<lparr>trace := trace w2 @ [Signed proofBytes]\<rparr>
               in (case sign km proofBytes of
                     Inl e \<Rightarrow> (Inl e, w3)
                   | Inr signedProofBytes \<Rightarrow>
                      let relayPayload' =
                            relayPayload\<lparr>payload_headers := map_option meanwhile headers\<rparr>;
                          requestHash' = requestHash_json relayPayload' relayMeta;
                          (request_hash, w4) = hashRequest H requestHash' w3;
                          relayProof =
                            \<lparr>proof_entropy = Number_toString (JSNumber entropy),
                             proof_session_block_height =
                               Number_toString (header_sessionBlockHeight (header session)),
                             proof_servicer_pub_key = servicerPubKey,
                             proof_blockchain = blockchain,
                             proof_aat =
                               \<lparr>aat_version = version pocketAAT,
                                aat_app_pub_key = applicationPublicKey pocketAAT,
                                aat_client_pub_key = clientPublicKey pocketAAT,
                                aat_signature = applicationSignature pocketAAT\<rparr>,
                             proof_signature = signedProofBytes,
                             proof_request_hash = request_hash\<rparr>;
                          relayRequest =
                            \<lparr>request_payload = relayPayload', request_meta = relayMeta,
                             request_proof = relayProof\<rparr>;
                          w5 = w4\<lparr>trace := trace w4 @ [Sent relayRequest (serviceUrl serviceNode)]\<rparr>
                      in (case provider_relay provider relayRequest (serviceUrl serviceNode) of
                            Inl e \<Rightarrow> (Inl e, w5)
                          | Inr relay \<Rightarrow> (validateRelayResponse relay, w5)))))"

text \<open>The instance method \<^verbatim>\<open>relay\<close> of a \<^verbatim>\<open>Relayer\<close> object.\<close>

record 'raw Relayer =
  this_keyManager :: "Signer option"
  this_provider :: "'raw JsonRpcProvider"
  this_dispatchers :: "string list"

definition relay ::
  "(string \<Rightarrow> string) \<Rightarrow> (nat \<Rightarrow> real) \<Rightarrow> (RelayHeaders \<Rightarrow> RelayHeaders)
     \<Rightarrow> ('raw \<Rightarrow> 'resp result) \<Rightarrow> 'raw Relayer
     \<Rightarrow> string \<Rightarrow> string \<Rightarrow> RelayHeaders option \<Rightarrow> string \<Rightarrow> Node option
     \<Rightarrow> string \<Rightarrow> PocketAAT \<Rightarrow> Session \<Rightarrow> world
     \<Rightarrow> 'resp result \<times> world" where
  "relay H rs meanwhile validateRelayResponse this
       blockchain data headers method node path pocketAAT session w =
     (if this_keyManager this = None then (Inl MissingSignerError, w)
      else
        let serviceNode = (case node of Some n \<Rightarrow> Some n | None \<Rightarrow> None)
        in Relayer_relay H rs meanwhile validateRelayResponse
             blockchain data headers (this_keyManager this) method serviceNode path pocketAAT
             (this_provider this) session w)"

section \<open>Reading a decimal numeral back\<close>

definition digit_value :: "char \<Rightarrow> int" where
  "digit_value c = int (of_char c) - 48"

definition numeral_value :: "string \<Rightarrow> int" where
  "numeral_value s = foldl (\<lambda>a c. 10 * a + digit_value c) 0 s"

section \<open>Example values\<close>

text \<open>
  A session of three nodes, a fourth node outside it, and a node that has the public key
  of the second one but another service URL. The stand-in for the hash wraps its
  argument, so that its digests can be read. The two values of \<^verbatim>\<open>Math.random()\<close> are
  doubles whose products with the two constants of the relayer are exact.
\<close>

definition ex_sha3 :: "string \<Rightarrow> string" where
  "ex_sha3 text = ''sha3('' @ text @ '')''"

definition ex_random :: "nat \<Rightarrow> real" where
  "ex_random k = (if k = 0 then 1 / 2 else 1 / 4)"

definition ex_validate :: "string \<Rightarrow> string result" where
  "ex_validate raw = (if raw = ''error'' then Inl (Error ''relay error'') else Inr raw)"

definition ex_aat :: PocketAAT where
  "ex_aat = \<lparr>version = ''0.0.1'', clientPublicKey = ''c1'', applicationPublicKey = ''a1'',
             applicationSignature = ''s1''\<rparr>"

definition ex_nodeA :: Node where
  "ex_nodeA = \<lparr>publicKey = ''pkA'', serviceUrl = ''https://a.example'', chains = [''0021'']\<rparr>"

definition ex_nodeB :: Node where
  "ex_nodeB = \<lparr>publicKey = ''pkB'', serviceUrl = ''https://b.example'', chains = [''0021'']\<rparr>"

definition ex_nodeC :: Node where
  "ex_nodeC = \<lparr>publicKey = ''pkC'', serviceUrl = ''https://c.example'', chains = [''0021'']\<rparr>"

definition ex_nodeD :: Node where
  "ex_nodeD = \<lparr>publicKey = ''pkD'', serviceUrl = ''https://d.example'', chains = [''0021'']\<rparr>"

definition ex_nodeB_moved :: Node where
  "ex_nodeB_moved =
     \<lparr>publicKey = ''pkB'', serviceUrl = ''https://elsewhere.example'', chains = [''0021'']\<rparr>"

definition ex_session :: Session where
  "ex_session =
     \<lparr>header = \<lparr>header_applicationPubKey = ''a1'', header_chain = ''0021'',
                 header_sessionBlockHeight = JSNumber 17\<rparr>,
      nodes = [ex_nodeA, ex_nodeB, ex_nodeC]\<rparr>"

definition ex_empty_session :: Session where
  "ex_empty_session = ex_session\<lparr>nodes := []\<rparr>"

definition ex_signer :: Signer where
  "ex_signer = \<lparr>sign = (\<lambda>bytes. Inr (''signed:'' @ bytes)), getPublicKey = ''c1''\<rparr>"

text \<open>A signer that signs one text only.\<close>

definition ex_signer_of :: "string \<Rightarrow> Signer" where
  "ex_signer_of text =
     \<lparr>sign = (\<lambda>bytes. if bytes = text then Inr ''signature'' else Inl (Error ''refused'')),
      getPublicKey = ''c1''\<rparr>"

definition ex_provider :: "string JsonRpcProvider" where
  "ex_provider = \<lparr>provider_relay = (\<lambda>request url. Inr ''ok'')\<rparr>"

definition ex_relayer :: "string Relayer" where
  "ex_relayer =
     \<lparr>this_keyManager = Some ex_signer, this_provider = ex_provider, this_dispatchers = []\<rparr>"

definition ex_world :: world where
  "ex_world = \<lparr>drawn = 0, trace = []\<rparr>"

definition ex_requestHash :: json where
  "ex_requestHash =
     requestHash_json
       \<lparr>payload_data = ''{}'', payload_method = ''POST'', payload_path = '''',
          payload_headers = None\<rparr>
       \<lparr>meta_block_height = 17\<rparr>"

text \<open>
  A caller that passes an object with one header and adds a second one to the same object
  before \<^verbatim>\<open>relay\<close> resumes.
\<close>

definition ex_headers :: RelayHeaders where
  "ex_headers = [(''a'', ''1'')]"

definition ex_meanwhile :: "RelayHeaders \<Rightarrow> RelayHeaders" where
  "ex_meanwhile hs = hs @ [(''b'', ''2'')]"

section \<open>Auxiliary facts\<close>

subsection \<open>Doubles\<close>

lemma pow2_powr: "pow2 p = 2 powr (of_int p)"
proof (cases "0 \<le> p")
  case True
  then have "pow2 p = 2 ^ nat p"
    by (simp add: pow2_def)
  also have "\<dots> = 2 powr (real (nat p))"
    by (simp add: powr_realpow)
  finally show ?thesis
    using True by simp
next
  case False
  then have "pow2 p = 1 / 2 ^ nat (- p)"
    by (simp add: pow2_def)
  also have "\<dots> = 1 / 2 powr (real (nat (- p)))"
    by (simp add: powr_realpow)
  also have "\<dots> = 2 powr (- real (nat (- p)))"
    by (simp add: powr_minus divide_inverse)
  finally show ?thesis
    using False by simp
qed

lemma pow2_pos: "0 < pow2 p"
  by (simp add: pow2_powr)

lemma pow2_add: "pow2 (a + b) = pow2 a * pow2 b"
  by (simp add: pow2_powr powr_add)

lemma pow2_less_iff: "pow2 a < pow2 b \<longleftrightarrow> a < b"
  by (simp add: pow2_powr)

lemma pow2_le_iff: "pow2 a \<le> pow2 b \<longleftrightarrow> a \<le> b"
  by (simp add: pow2_powr)

lemma pow2_nat: "0 \<le> p \<Longrightarrow> pow2 p = 2 ^ nat p"
  by (simp add: pow2_def)

text \<open>\<open>exponent2\<close> is the binary exponent.\<close>

lemma exponent2_bounds:
  assumes "0 < x"
  shows "pow2 (exponent2 x) \<le> x" and "x < pow2 (exponent2 x + 1)"
proof -
  have both: "pow2 (exponent2 x) \<le> x \<and> x < pow2 (exponent2 x + 1)"
  proof (cases "1 \<le> x")
    case True
    let ?n = "\<lfloor>x\<rfloor>"
    have n: "0 < ?n" using True by simp
    have b: "1 \<le> bitlen ?n"
      using n by (simp add: bitlen_ge_iff_power)
    from bitlen_bounds [OF n]
    have lo: "2 ^ nat (bitlen ?n - 1) \<le> ?n" and hi: "?n < 2 ^ nat (bitlen ?n)"
      by simp_all
    have "pow2 (bitlen ?n - 1) = of_int (2 ^ nat (bitlen ?n - 1))"
      using b by (simp add: pow2_nat)
    also have "\<dots> \<le> of_int ?n"
      using lo by (simp only: of_int_le_iff)
    also have "\<dots> \<le> x" by simp
    finally have low: "pow2 (bitlen ?n - 1) \<le> x" .
    have "?n + 1 \<le> 2 ^ nat (bitlen ?n)" using hi by simp
    then have "of_int (?n + 1) \<le> (of_int (2 ^ nat (bitlen ?n)) :: real)"
      by (simp only: of_int_le_iff)
    moreover have "x < of_int (?n + 1)" by simp
    ultimately have "x < of_int (2 ^ nat (bitlen ?n))" by linarith
    also have "\<dots> = pow2 (bitlen ?n - 1 + 1)"
      using b by (simp add: pow2_nat)
    finally have "x < pow2 (bitlen ?n - 1 + 1)" .
    with low True show ?thesis
      by (simp add: exponent2_def)
  next
    case False
    let ?y = "1 / x"
    let ?m = "\<lceil>?y\<rceil> - 1"
    let ?k = "bitlen ?m"
    have y: "1 < ?y" using assms False by simp
    then have "1 < \<lceil>?y\<rceil>" by (simp add: less_ceiling_iff)
    then have m: "0 < ?m" by simp
    have k: "1 \<le> ?k"
      using m by (simp add: bitlen_ge_iff_power)
    from bitlen_bounds [OF m]
    have lo: "2 ^ nat (?k - 1) \<le> ?m" and hi: "?m < 2 ^ nat ?k"
      by simp_all
    have "?y \<le> of_int \<lceil>?y\<rceil>" by simp
    also have "\<lceil>?y\<rceil> \<le> 2 ^ nat ?k" using hi by simp
    then have "(of_int \<lceil>?y\<rceil> :: real) \<le> of_int (2 ^ nat ?k)"
      by (simp only: of_int_le_iff)
    finally have yk: "?y \<le> 2 ^ nat ?k" by simp
    have "(of_int (2 ^ nat (?k - 1)) :: real) \<le> of_int ?m"
      using lo by (simp only: of_int_le_iff)
    also have "of_int ?m < ?y"
      using ceiling_correct [of ?y] by simp
    finally have ky: "2 ^ nat (?k - 1) < ?y" by simp
    have p1: "pow2 (- ?k) = 1 / 2 ^ nat ?k"
      using k by (simp add: pow2_def)
    have p2: "pow2 (- ?k + 1) = 1 / 2 ^ nat (?k - 1)"
    proof (cases "?k = 1")
      case True then show ?thesis by (simp add: pow2_def)
    next
      case False
      with k have "\<not> 0 \<le> - ?k + 1" by simp
      moreover have "nat (- (- ?k + 1)) = nat (?k - 1)" by simp
      ultimately show ?thesis by (simp add: pow2_def)
    qed
    have "1 / 2 ^ nat ?k \<le> x"
      using yk assms by (simp add: field_simps)
    moreover have "x < 1 / 2 ^ nat (?k - 1)"
      using ky assms by (simp add: field_simps)
    ultimately show ?thesis
      using False p1 p2 by (simp add: exponent2_def)
  qed
  from both show "pow2 (exponent2 x) \<le> x" and "x < pow2 (exponent2 x + 1)"
    by simp_all
qed

lemma round_half_even_of_int: "round_half_even (of_int k) = k"
  by (simp add: round_half_even_def)

text \<open>A double is rounded to itself.\<close>

lemma round_double_exact:
  assumes x: "x = of_int m * pow2 s" and m: "\<bar>m\<bar> < 2 ^ 53" and s: "- 1074 \<le> s"
  shows "round_double x = x"
proof (cases "m = 0")
  case True
  with x show ?thesis by (simp add: round_double_def)
next
  case False
  define a where "a = \<bar>x\<bar>"
  define p where "p = max (exponent2 a - 52) (- 1074)"
  have a: "a = of_int \<bar>m\<bar> * pow2 s"
    using x pow2_pos [of s] by (simp add: a_def abs_mult)
  have pos: "0 < a"
    using a False pow2_pos [of s] by simp
  have "(of_int \<bar>m\<bar> :: real) < of_int (2 ^ 53)"
    using m by (simp only: of_int_less_iff)
  then have "a < 2 ^ 53 * pow2 s"
    using a pow2_pos [of s] by simp
  also have "2 ^ 53 * pow2 s = pow2 53 * pow2 s"
    by (simp add: pow2_def)
  also have "\<dots> = pow2 (53 + s)"
    by (simp only: pow2_add)
  finally have "a < pow2 (53 + s)" .
  with exponent2_bounds(1) [OF pos] have "pow2 (exponent2 a) < pow2 (53 + s)"
    by linarith
  then have "exponent2 a < 53 + s"
    by (simp only: pow2_less_iff)
  with s have ps: "p \<le> s" by (simp add: p_def)
  define t where "t = nat (s - p)"
  have "pow2 s = pow2 (p + (s - p))" by simp
  also have "\<dots> = pow2 p * pow2 (s - p)" by (rule pow2_add)
  also have "pow2 (s - p) = 2 ^ t"
    using ps by (simp add: pow2_nat t_def)
  finally have split: "pow2 s = pow2 p * 2 ^ t" .
  have q: "a / pow2 p = of_int (\<bar>m\<bar> * 2 ^ t)"
    using pow2_pos [of p] by (simp add: a split)
  have whole: "of_int (\<bar>m\<bar> * 2 ^ t) * pow2 p = a"
    by (simp add: a split)
  have "x \<noteq> 0" using pos by (simp add: a_def)
  then have "round_double x = sgn x * (of_int (round_half_even (a / pow2 p)) * pow2 p)"
    by (simp add: round_double_def Let_def a_def p_def)
  also have "\<dots> = sgn x * a"
    by (simp only: q round_half_even_of_int whole)
  also have "\<dots> = x"
    by (simp add: a_def sgn_real_def)
  finally show ?thesis .
qed

lemma round_double_of_int: "\<bar>m\<bar> < 2 ^ 53 \<Longrightarrow> round_double (of_int m) = of_int m"
  using round_double_exact [of "of_int m" m 0] by (simp add: pow2_def)

lemma number_value_safe: "safe_integer i \<Longrightarrow> number_value i = i"
  by (simp add: number_value_def safe_integer_def round_double_of_int)

lemma round_half_even_nonneg: "0 \<le> q \<Longrightarrow> 0 \<le> round_half_even q"
  by (simp add: round_half_even_def Let_def)

lemma round_double_nonneg:
  assumes "0 \<le> x"
  shows "0 \<le> round_double x"
proof (cases "x = 0")
  case True
  then show ?thesis by (simp add: round_double_def)
next
  case False
  let ?p = "max (exponent2 \<bar>x\<bar> - 52) (- 1074)"
  have "0 \<le> \<bar>x\<bar> / pow2 ?p"
    using pow2_pos [of ?p] by simp
  then have "0 \<le> round_half_even (\<bar>x\<bar> / pow2 ?p)"
    by (rule round_half_even_nonneg)
  then have "0 \<le> of_int (round_half_even (\<bar>x\<bar> / pow2 ?p)) * pow2 ?p"
    using pow2_pos [of ?p] by simp
  with assms False show ?thesis
    by (simp add: round_double_def Let_def sgn_real_def)
qed

lemma round_half_even_le: "of_int (round_half_even q) \<le> q + 1 / 2"
proof -
  have "round_half_even q = \<lfloor>q\<rfloor>
      \<or> round_half_even q = \<lfloor>q\<rfloor> + 1 \<and> 1 / 2 \<le> q - of_int \<lfloor>q\<rfloor>"
    by (auto simp: round_half_even_def Let_def)
  moreover have "of_int \<lfloor>q\<rfloor> \<le> q" by simp
  ultimately show ?thesis
    by (elim disjE conjE) (simp_all, linarith+)
qed

text \<open>The product of 100 and a double below 1 is rounded to a double below 100.\<close>

lemma round_double_below_100:
  assumes "0 \<le> y" and "y \<le> 100 - 100 / 2 ^ 53"
  shows "round_double y < 100"
proof (cases "y = 0")
  case True
  then show ?thesis by (simp add: round_double_def)
next
  case False
  with assms(1) have pos: "0 < y" by simp
  define p where "p = max (exponent2 y - 52) (- 1074)"
  define n where "n = round_half_even (y / pow2 p)"
  have "y < pow2 7"
    using assms(2) by (simp add: pow2_def)
  with exponent2_bounds(1) [OF pos] have "pow2 (exponent2 y) < pow2 7"
    by linarith
  then have "exponent2 y < 7"
    by (simp only: pow2_less_iff)
  then have "p \<le> - 46"
    by (simp add: p_def)
  then have "pow2 p \<le> pow2 (- 46)"
    by (simp only: pow2_le_iff)
  then have small: "pow2 p \<le> 1 / 2 ^ 46"
    by (simp add: pow2_def)
  have "of_int n \<le> y / pow2 p + 1 / 2"
    unfolding n_def by (rule round_half_even_le)
  then have "of_int n * pow2 p \<le> (y / pow2 p + 1 / 2) * pow2 p"
    using pow2_pos [of p] by (simp only: mult_le_cancel_right_pos)
  also have "\<dots> = y + pow2 p / 2"
    using pow2_pos [of p] by (simp add: field_simps)
  finally have "of_int n * pow2 p \<le> y + pow2 p / 2" .
  with small assms(2) have "of_int n * pow2 p < 100"
    by simp
  moreover have "round_double y = of_int n * pow2 p"
    using pos by (simp add: round_double_def Let_def p_def n_def)
  ultimately show ?thesis by simp
qed

subsection \<open>Decimal numerals\<close>

lemma digit_char_simps:
  "digit_char 0 = CHR ''0''" "digit_char 1 = CHR ''1''" "digit_char 2 = CHR ''2''"
  "digit_char 3 = CHR ''3''" "digit_char 4 = CHR ''4''" "digit_char 5 = CHR ''5''"
  "digit_char 6 = CHR ''6''" "digit_char 7 = CHR ''7''" "digit_char 8 = CHR ''8''"
  "digit_char 9 = CHR ''9''" "digit_char (Suc 0) = CHR ''1''"
  by code_simp+

lemma digit_value_digit_char: "d < 10 \<Longrightarrow> digit_value (digit_char d) = int d"
  by (simp add: digit_value_def digit_char_def)

lemma numeral_value_decimal: "0 \<le> n \<Longrightarrow> numeral_value (decimal n) = n"
proof (induction n rule: decimal.induct)
  case (1 n)
  show ?case
  proof (cases "n < 10")
    case True
    with "1.prems" show ?thesis
      by (subst decimal.simps) (simp add: numeral_value_def digit_value_digit_char)
  next
    case False
    with "1" have "numeral_value (decimal (n div 10)) = n div 10"
      by simp
    with False show ?thesis
      by (subst decimal.simps) (simp add: numeral_value_def digit_value_digit_char)
  qed
qed

lemma decimal_inject: "0 \<le> m \<Longrightarrow> 0 \<le> n \<Longrightarrow> decimal m = decimal n \<Longrightarrow> m = n"
  by (metis numeral_value_decimal)

lemma decimal_not_Nil: "decimal n \<noteq> []"
  by (subst decimal.simps) simp

lemma digit_char_not_minus: "d < 10 \<Longrightarrow> digit_char d \<noteq> CHR ''-''"
proof
  assume "d < 10" and "digit_char d = CHR ''-''"
  then have "(of_char (digit_char d) :: nat) = of_char CHR ''-''"
    by simp
  with \<open>d < 10\<close> show False
    by (simp add: digit_char_def)
qed

lemma hd_decimal: "hd (decimal n) \<noteq> CHR ''-''"
proof (induction n rule: decimal.induct)
  case (1 n)
  show ?case
  proof (cases "n < 10")
    case True
    then show ?thesis
      by (subst decimal.simps) (simp add: digit_char_not_minus)
  next
    case False
    with "1" show ?thesis
      by (subst decimal.simps) (simp add: decimal_not_Nil)
  qed
qed

lemma JSON_number_safe:
  "safe_integer i \<Longrightarrow>
     JSON_number i = (if i < 0 then ''-'' @ decimal (- i) else decimal i)"
proof -
  assume "safe_integer i"
  then have "i \<le> 2 ^ 53" and "- i \<le> 2 ^ 53"
    by (simp_all add: safe_integer_def abs_less_iff)
  then show ?thesis
    by (simp add: JSON_number_def JSON_positive_def)
qed

text \<open>Two safe integers with the same JSON text are equal.\<close>

lemma JSON_number_inject:
  assumes "safe_integer i" and "safe_integer j" and eq: "JSON_number i = JSON_number j"
  shows "i = j"
proof -
  have neg: "decimal a \<noteq> CHR ''-'' # s" for a s
    using hd_decimal [of a] by (metis list.sel(1))
  note eq' = eq [unfolded JSON_number_safe [OF assms(1)] JSON_number_safe [OF assms(2)]]
  show "i = j"
  proof (cases "i < 0"; cases "j < 0")
    assume "i < 0" "j < 0"
    with eq' have "- i = - j"
      using decimal_inject [of "- i" "- j"] by simp
    then show ?thesis by simp
  next
    assume "i < 0" "\<not> j < 0"
    with eq' neg show ?thesis by simp metis
  next
    assume "\<not> i < 0" "j < 0"
    with eq' neg show ?thesis by simp
  next
    assume "\<not> i < 0" "\<not> j < 0"
    with eq' show ?thesis
      using decimal_inject [of i j] by simp
  qed
qed

subsection \<open>The trace\<close>

lemma hashed_append: "hashed (xs @ ys) = hashed xs @ hashed ys"
  by (induction xs rule: hashed.induct) simp_all

lemma signed_append: "signed (xs @ ys) = signed xs @ signed ys"
  by (induction xs rule: signed.induct) simp_all

lemma sent_append: "sent (xs @ ys) = sent xs @ sent ys"
  by (induction xs rule: sent.induct) simp_all

subsection \<open>What each function returns and records\<close>

lemma hashRequest_run:
  "hashRequest H j w =
     (H (JSON_stringify j), w\<lparr>trace := trace w @ [Hashed (JSON_stringify j)]\<rparr>)"
  by (simp add: hashRequest_def sha3_256_hex_def)

lemma hashAAT_run:
  "hashAAT H aat w =
     (H (JSON_stringify (tokenJSON aat)),
      w\<lparr>trace := trace w @ [Hashed (JSON_stringify (tokenJSON aat))]\<rparr>)"
  by (simp add: hashAAT_def sha3_256_hex_def Let_def)

lemma generateProofBytes_run:
  "generateProofBytes H entropy sessionBlockHeight servicerPublicKey blockchain pocketAAT requestHash w =
     (H (JSON_stringify (proofJSON entropy sessionBlockHeight servicerPublicKey blockchain
           (H (JSON_stringify (tokenJSON pocketAAT))) (H (JSON_stringify requestHash)))),
      w\<lparr>trace := trace w @
         [Hashed (JSON_stringify (tokenJSON pocketAAT)),
          Hashed (JSON_stringify requestHash),
          Hashed (JSON_stringify (proofJSON entropy sessionBlockHeight servicerPublicKey blockchain
            (H (JSON_stringify (tokenJSON pocketAAT))) (H (JSON_stringify requestHash))))]\<rparr>)"
  by (simp add: generateProofBytes_def hashAAT_run hashRequest_run sha3_256_hex_def Let_def
        del: JSON_stringify.simps)

lemma getRandomSessionNode_run:
  "getRandomSessionNode rs session w =
     (Inr (array_get (nodes session)
             (js_rem \<lfloor>js_times (rs (drawn w)) 100\<rfloor> (int (length (nodes session))))),
      w\<lparr>drawn := Suc (drawn w)\<rparr>)"
  by (simp add: getRandomSessionNode_def Math_random_def)

lemma isNodeInSession_iff:
  "isNodeInSession session node \<longleftrightarrow> publicKey node \<in> publicKey ` set (nodes session)"
  unfolding isNodeInSession_def find_None_iff image_iff by (simp, metis)

text \<open>The instance method does what the static one does with the fields of the object.\<close>

lemma relay_eq_static:
  "relay H rs meanwhile validateRelayResponse this blockchain data headers method node path
       pocketAAT session w =
     Relayer_relay H rs meanwhile validateRelayResponse blockchain data headers
       (this_keyManager this) method node path pocketAAT (this_provider this) session w"
  by (cases node) (simp_all add: relay_def Relayer_relay_def)

subsection \<open>The index that \<^verbatim>\<open>getRandomSessionNode\<close> computes\<close>

lemma js_rem_nonneg: "0 \<le> a \<Longrightarrow> 0 < b \<Longrightarrow> js_rem a b = Some (a mod b)"
  by (cases "a = 0") (simp_all add: js_rem_def)

lemma getRandomSessionNode_index:
  assumes "0 \<le> rs (drawn w)" and "nodes session \<noteq> []"
  shows "fst (getRandomSessionNode rs session w) =
           Inr (Some (nodes session !
             (nat \<lfloor>js_times (rs (drawn w)) 100\<rfloor> mod length (nodes session))))"
proof -
  let ?d = "\<lfloor>js_times (rs (drawn w)) 100\<rfloor>" and ?n = "int (length (nodes session))"
  have "0 \<le> js_times (rs (drawn w)) 100"
    using assms(1) by (simp add: js_times_def round_double_nonneg)
  then have d: "0 \<le> ?d" by simp
  have n: "0 < ?n" using assms(2) by simp
  have idx: "nat (?d mod ?n) = nat ?d mod length (nodes session)"
    using d n by (simp add: nat_mod_distrib)
  have "0 \<le> ?d mod ?n" "?d mod ?n < ?n" using n by simp_all
  then show ?thesis
    using idx by (simp add: getRandomSessionNode_run js_rem_nonneg [OF d n] array_get_def)
qed

text \<open>
  Whatever double below 1 \<^verbatim>\<open>Math.random()\<close> returns, the node is one of the first
  hundred of the session. The largest double below 1 is \<open>1 - 1 / 2 ^ 53\<close>.
\<close>

lemma getRandomSessionNode_first_hundred:
  assumes "0 \<le> rs (drawn w)" and "rs (drawn w) \<le> 1 - 1 / 2 ^ 53"
      and "fst (getRandomSessionNode rs session w) = Inr (Some n)"
  shows "n \<in> set (take 100 (nodes session))"
proof -
  have ne: "nodes session \<noteq> []"
    using assms(3) by (auto simp: getRandomSessionNode_run js_rem_def array_get_def)
  let ?i = "nat \<lfloor>js_times (rs (drawn w)) 100\<rfloor> mod length (nodes session)"
  have "0 \<le> rs (drawn w) * 100" and "rs (drawn w) * 100 \<le> 100 - 100 / 2 ^ 53"
    using assms(1,2) by simp_all
  then have "js_times (rs (drawn w)) 100 < 100"
    unfolding js_times_def by (rule round_double_below_100)
  then have "\<lfloor>js_times (rs (drawn w)) 100\<rfloor> < 100" by linarith
  then have "nat \<lfloor>js_times (rs (drawn w)) 100\<rfloor> < 100" by linarith
  then have "?i < 100" by (meson le_less_trans mod_less_eq_dividend)
  moreover have "?i < length (nodes session)" using ne by simp
  moreover have "n = nodes session ! ?i"
    using getRandomSessionNode_index [of rs w session] assms(1,3) ne by simp
  ultimately show ?thesis
    by (auto simp: in_set_conv_nth)
qed

text \<open>
  The double nearest to 0.24 is a little below it. Its exact product with 100 is below
  24; the product of JavaScript is 24, so that the first of three nodes is selected.
\<close>

lemma js_times_double_024:
  "\<lfloor>js_times (1080863910568919 / 4503599627370496) 100\<rfloor> = 24
   \<and> \<lfloor>(1080863910568919 / 4503599627370496 :: real) * 100\<rfloor> = 23"
  by code_simp

lemma proofJSON_text_inject:
  assumes "safe_integer (Number_toString e1)" and "safe_integer (Number_toString e2)"
      and "JSON_stringify (proofJSON e1 h k b t q) = JSON_stringify (proofJSON e2 h k b t q)"
  shows "Number_toString e1 = Number_toString e2"
  using assms by (simp add: proofJSON_def JSON_number_inject)

subsection \<open>The numbers of the examples\<close>

lemma ex_entropy: "\<lfloor>js_times (1 / 2) 99999999999999\<rfloor> = 49999999999999"
proof -
  have "round_double (99999999999999 / 2) = 99999999999999 / 2"
    using round_double_exact [of "99999999999999 / 2" 99999999999999 "- 1"]
    by (simp add: pow2_def)
  moreover have "(1 / 2 :: real) * 99999999999999 = 99999999999999 / 2"
    by simp
  ultimately have "js_times (1 / 2) 99999999999999 = 99999999999999 / 2"
    by (simp only: js_times_def)
  then have "\<lfloor>js_times (1 / 2) 99999999999999\<rfloor> = \<lfloor>99999999999999 / 2 :: real\<rfloor>"
    by (simp only:)
  also have "\<dots> = 49999999999999"
    by simp
  finally show ?thesis .
qed

lemma number_value_examples:
  "number_value 5 = 5" "number_value 6 = 6" "number_value 17 = 17"
  "number_value 49999999999999 = 49999999999999"
  by (simp_all add: number_value_safe safe_integer_def)

lemma number_value_beyond: "number_value 9007199254740993 = 9007199254740992"
  by code_simp

lemma Number_toString_safe:
  "safe_integer (numeric_value e) \<Longrightarrow> Number_toString e = numeric_value e"
  by (cases e) (simp_all add: number_value_safe)

lemma JSON_number_examples:
  "JSON_number 5 = ''5''" "JSON_number 6 = ''6''" "JSON_number 17 = ''17''"
  "JSON_number 49999999999999 = ''49999999999999''"
  "JSON_number 9007199254740992 = ''9007199254740992''"
  by (simp_all add: JSON_number_def JSON_positive_def decimal.simps digit_char_simps)

section \<open>Properties of the relayer\<close>

subsection \<open>The request hash of a relay that succeeds\<close>

text \<open>
  When the static \<^verbatim>\<open>relay\<close> returns a response, it has handed exactly one request to the
  provider and exactly one text to the signer. The \<^verbatim>\<open>request_hash\<close> of the proof in
  that request is the digest of the \<^verbatim>\<open>{payload, meta}\<close> pair of the same request. The
  text that was signed is the digest of \<^verbatim>\<open>proofJSON\<close> with the fields of that proof
  (the block height read through \<^verbatim>\<open>Number(x.toString())\<close> once more), but with the
  digest of the pair as it was before the signer was awaited, that is with the headers as
  the caller passed them. The two digests are the same when \<open>meanwhile\<close> leaves those
  headers as they are.
\<close>

lemma relay_success_trace:
  assumes "Relayer_relay H rs meanwhile validateRelayResponse blockchain data headers keyManager
             method node path pocketAAT provider session w = (Inr response, w')"
  shows "\<exists>km request url proofBytes.
           keyManager = Some km
         \<and> sent (trace w') = sent (trace w) @ [(request, url)]
         \<and> signed (trace w') = signed (trace w) @ [proofBytes]
         \<and> payload_headers (request_payload request) = map_option meanwhile headers
         \<and> proof_request_hash (request_proof request) =
             H (JSON_stringify (requestHash_json (request_payload request) (request_meta request)))
         \<and> proofBytes =
             H (JSON_stringify (JObj
                  [(''entropy'', JNum (proof_entropy (request_proof request))),
                   (''session_block_height'',
                      JNum (number_value (proof_session_block_height (request_proof request)))),
                   (''servicer_pub_key'', JStr (proof_servicer_pub_key (request_proof request))),
                   (''blockchain'', JStr (proof_blockchain (request_proof request))),
                   (''signature'', JStr []),
                   (''token'', JStr (H (JSON_stringify (tokenJSON pocketAAT)))),
                   (''request_hash'', JStr (H (JSON_stringify (requestHash_json
                        ((request_payload request)\<lparr>payload_headers := headers\<rparr>)
                        (request_meta request)))))]))
         \<and> sign km proofBytes = Inr (proof_signature (request_proof request))"
proof -
  from assms obtain km where km: "keyManager = Some km"
    by (cases keyManager) (simp_all add: Relayer_relay_def)
  show ?thesis
    using assms unfolding km Relayer_relay_def
    by (auto simp: Let_def Math_random_def generateProofBytes_run hashRequest_run hashAAT_run
          getRandomSessionNode_run sent_append signed_append proofJSON_def
        simp del: JSON_stringify.simps
        split: option.splits sum.splits if_splits)
qed
text \<open>
  Claim C1. A caller passes a headers object with one property and adds a second
  property to the same object while \<^verbatim>\<open>relay\<close> awaits the signer. The relay succeeds.
  \<^verbatim>\<open>hashRequest\<close> is called twice, on the texts \<open>before\<close> and \<open>after\<close>: the digest of
  \<open>before\<close> is in the text that is signed, the digest of \<open>after\<close> is the
  \<^verbatim>\<open>request_hash\<close> of the proof that is sent with that signature, and the two digests
  differ. The request hash of the proof is not the one that was hashed into the proof
  bytes. When the headers object is left as it is, the same call sends the digest of
  \<open>before\<close>.
\<close>

theorem relay_request_hash_recomputed:
  \<open>let run = Relayer_relay ex_sha3 ex_random ex_meanwhile ex_validate ''0021'' ''{}''
                (Some ex_headers) (Some ex_signer) ''POST'' (Some ex_nodeB) '''' ex_aat ex_provider
                ex_session ex_world;
       token = ''{"version":"0.0.1","app_pub_key":"a1","client_pub_key":"c1","signature":""}'';
       before = ''{"payload":{"data":"{}","method":"POST","path":"","headers":{"a":"1"}},"meta":{"block_height":17}}'';
       after = ''{"payload":{"data":"{}","method":"POST","path":"","headers":{"a":"1","b":"2"}},"meta":{"block_height":17}}'';
       bytes = ''{"entropy":49999999999999,"session_block_height":17,"servicer_pub_key":"pkB","blockchain":"0021","signature":"","token":''
                 @ JSON_quote (ex_sha3 token) @ '',"request_hash":'' @ JSON_quote (ex_sha3 before) @ ''}''
   in fst run = Inr ''ok''
    \<and> hashed (trace (snd run)) = [token, before, bytes, after]
    \<and> signed (trace (snd run)) = [ex_sha3 bytes]
    \<and> map (\<lambda>(request, url).
             (proof_request_hash (request_proof request), proof_signature (request_proof request),
              payload_headers (request_payload request), url))
          (sent (trace (snd run)))
        = [(ex_sha3 after, ''signed:'' @ ex_sha3 bytes, Some [(''a'', ''1''), (''b'', ''2'')],
            ''https://b.example'')]
    \<and> ex_sha3 before \<noteq> ex_sha3 after
    \<and> map (\<lambda>(request, url). proof_request_hash (request_proof request))
          (sent (trace (snd (Relayer_relay ex_sha3 ex_random (\<lambda>hs. hs) ex_validate ''0021'' ''{}''
             (Some ex_headers) (Some ex_signer) ''POST'' (Some ex_nodeB) '''' ex_aat ex_provider
             ex_session ex_world))))
        = [ex_sha3 before]\<close>
  by (simp add: Let_def Relayer_relay_def Math_random_def generateProofBytes_run hashRequest_run
        isNodeInSession_def proofJSON_def tokenJSON_def requestHash_json_def RelayPayload_json_def
        RelayMeta_json_def headers_json_def JSON_quote_def quote_char_def
        ex_entropy number_value_examples JSON_number_examples
        ex_sha3_def ex_random_def ex_meanwhile_def ex_validate_def ex_headers_def ex_signer_def
        ex_nodeA_def ex_nodeB_def ex_nodeC_def ex_aat_def ex_provider_def ex_session_def
        ex_world_def)

subsection \<open>The bytes of a proof\<close>

text \<open>
  Claim C2, as amended. For an entropy, number or bigint, and a session block height that
  are safe integers, \<^verbatim>\<open>generateProofBytes\<close> returns the digest of the JSON text of the
  object with the properties \<^verbatim>\<open>entropy\<close>, \<^verbatim>\<open>session_block_height\<close>,
  \<^verbatim>\<open>servicer_pub_key\<close>, \<^verbatim>\<open>blockchain\<close>, \<^verbatim>\<open>signature\<close>, \<^verbatim>\<open>token\<close> and
  \<^verbatim>\<open>request_hash\<close>, in this order, where the entropy and the block height are the ones
  that were passed, the signature is the empty string, the token is \<^verbatim>\<open>hashAAT\<close> of the
  AAT and the request hash is \<^verbatim>\<open>hashRequest\<close> of the request hash input. The second
  equation spells the text out.
\<close>

theorem generateProofBytes_digest:
  assumes "safe_integer (numeric_value entropy)" and "safe_integer sessionBlockHeight"
  shows
  "fst (generateProofBytes H entropy sessionBlockHeight servicerPublicKey blockchain pocketAAT
          requestHash w) =
     H (JSON_stringify (JObj
       [(''entropy'', JNum (numeric_value entropy)),
        (''session_block_height'', JNum sessionBlockHeight),
        (''servicer_pub_key'', JStr servicerPublicKey),
        (''blockchain'', JStr blockchain),
        (''signature'', JStr []),
        (''token'', JStr (fst (hashAAT H pocketAAT w))),
        (''request_hash'', JStr (fst (hashRequest H requestHash w)))]))
   \<and> fst (generateProofBytes H entropy sessionBlockHeight servicerPublicKey blockchain pocketAAT
          requestHash w) =
     H (''{'' @ JSON_quote ''entropy'' @ '':'' @ JSON_number (numeric_value entropy) @ '','' @
        JSON_quote ''session_block_height'' @ '':'' @ JSON_number sessionBlockHeight @ '','' @
        JSON_quote ''servicer_pub_key'' @ '':'' @ JSON_quote servicerPublicKey @ '','' @
        JSON_quote ''blockchain'' @ '':'' @ JSON_quote blockchain @ '','' @
        JSON_quote ''signature'' @ '':'' @ JSON_quote [] @ '','' @
        JSON_quote ''token'' @ '':'' @ JSON_quote (fst (hashAAT H pocketAAT w)) @ '','' @
        JSON_quote ''request_hash'' @ '':'' @ JSON_quote (fst (hashRequest H requestHash w)) @ ''}'')"
  using assms
  by (simp add: generateProofBytes_run proofJSON_def hashAAT_run hashRequest_run
        Number_toString_safe number_value_safe)

text \<open>The text that is hashed for entropy \<^verbatim>\<open>5n\<close>, block height 17 and \<^verbatim>\<open>null\<close>.\<close>

theorem generateProofBytes_digest_witness:
  \<open>safe_integer (numeric_value (JSBigInt 5)) \<and> safe_integer 17
   \<and> fst (generateProofBytes ex_sha3 (JSBigInt 5) 17 ''pkA'' ''0021'' ex_aat JNull ex_world)
     = ex_sha3 (''{"entropy":5,"session_block_height":17,"servicer_pub_key":"pkA","blockchain":"0021","signature":"","token":''
         @ JSON_quote (ex_sha3 ''{"version":"0.0.1","app_pub_key":"a1","client_pub_key":"c1","signature":""}'')
         @ '',"request_hash":"sha3(null)"}'')\<close>
proof -
  have h: "safe_integer (numeric_value (JSBigInt 5))" "safe_integer 17"
    by (simp_all add: safe_integer_def)
  from generateProofBytes_digest [OF h, of ex_sha3 "''pkA''" "''0021''" ex_aat JNull ex_world] h
  show ?thesis
    by (simp add: hashAAT_run hashRequest_run tokenJSON_def ex_sha3_def ex_aat_def JSON_quote_def
          quote_char_def JSON_number_examples)
qed

text \<open>
  The bigint \<open>2 ^ 53 + 1\<close> is not a double. The text that is hashed for it has the
  entropy \<open>2 ^ 53\<close>, which is not the entropy that was passed.
\<close>

theorem generateProofBytes_digest_counterexample:
  \<open>numeric_value (JSBigInt 9007199254740993) = 9007199254740993
   \<and> fst (generateProofBytes ex_sha3 (JSBigInt 9007199254740993) 17 ''pkA'' ''0021'' ex_aat JNull
          ex_world)
     = ex_sha3 (''{"entropy":9007199254740992,"session_block_height":17,"servicer_pub_key":"pkA","blockchain":"0021","signature":"","token":''
         @ JSON_quote (ex_sha3 ''{"version":"0.0.1","app_pub_key":"a1","client_pub_key":"c1","signature":""}'')
         @ '',"request_hash":"sha3(null)"}'')
   \<and> fst (generateProofBytes ex_sha3 (JSBigInt 9007199254740993) 17 ''pkA'' ''0021'' ex_aat JNull
          ex_world)
     \<noteq> ex_sha3 (''{"entropy":9007199254740993,"session_block_height":17,"servicer_pub_key":"pkA","blockchain":"0021","signature":"","token":''
         @ JSON_quote (ex_sha3 ''{"version":"0.0.1","app_pub_key":"a1","client_pub_key":"c1","signature":""}'')
         @ '',"request_hash":"sha3(null)"}'')\<close>
  by (simp add: generateProofBytes_run proofJSON_def tokenJSON_def ex_sha3_def ex_aat_def
        JSON_quote_def quote_char_def number_value_beyond number_value_examples
        JSON_number_examples)

subsection \<open>Node selection\<close>

text \<open>
  Claim C3, as amended. For a session whose node list is empty
  \<^verbatim>\<open>getRandomSessionNode\<close> does not fail: after one call of \<^verbatim>\<open>Math.random()\<close> it
  returns \<^verbatim>\<open>undefined\<close>, since the index is \<^verbatim>\<open>NaN\<close>. Nothing is hashed, signed or
  sent.
\<close>

theorem getRandomSessionNode_empty:
  assumes "nodes session = []"
  shows "getRandomSessionNode rs session w = (Inr None, w\<lparr>drawn := Suc (drawn w)\<rparr>)"
  using assms by (simp add: getRandomSessionNode_run js_rem_def array_get_def)

theorem getRandomSessionNode_empty_witness:
  "nodes ex_empty_session = []
   \<and> getRandomSessionNode ex_random ex_empty_session ex_world
       = (Inr None, \<lparr>drawn = 1, trace = []\<rparr>)"
  using getRandomSessionNode_empty [of ex_empty_session ex_random ex_world]
  by (simp add: ex_empty_session_def ex_world_def)

text \<open>On the empty example session the function returns normally, with no node.\<close>

theorem getRandomSessionNode_empty_counterexample:
  "nodes ex_empty_session = []
   \<and> fst (getRandomSessionNode ex_random ex_empty_session ex_world) = Inr None"
  by (simp add: getRandomSessionNode_run ex_empty_session_def js_rem_def array_get_def)

text \<open>
  Claim C4. The index is \<^verbatim>\<open>Math.floor(Math.random() * 100) % nodesInSession\<close>, and
  \<^verbatim>\<open>Math.floor(Math.random() * 100)\<close> is one of the hundred numbers from 0 to 99
  (\<open>getRandomSessionNode_index\<close>, \<open>getRandomSessionNode_first_hundred\<close>); for a value
  of \<^verbatim>\<open>Math.random()\<close> whose hundredfold is the whole number \<open>d\<close> it is \<open>d\<close>. For the example session of three nodes,
  34 of the hundred numbers select the first node and 33 each of the other two: a uniform
  \<^verbatim>\<open>Math.random()\<close> selects the first node with probability 34/100, not 1/3.
\<close>

theorem getRandomSessionNode_modulo_bias:
  "length (filter (\<lambda>d. fst (getRandomSessionNode (\<lambda>k. real d / 100) ex_session ex_world)
                          = Inr (Some ex_nodeA)) [0..<100]) = 34
   \<and> length (filter (\<lambda>d. fst (getRandomSessionNode (\<lambda>k. real d / 100) ex_session ex_world)
                          = Inr (Some ex_nodeB)) [0..<100]) = 33
   \<and> length (filter (\<lambda>d. fst (getRandomSessionNode (\<lambda>k. real d / 100) ex_session ex_world)
                          = Inr (Some ex_nodeC)) [0..<100]) = 33"
proof -
  have floor: "\<lfloor>js_times (real d / 100) 100\<rfloor> = int d" if "d < 100" for d
  proof -
    have "\<bar>int d\<bar> < 2 ^ 53" using that by simp
    then have "round_double (of_int (int d)) = of_int (int d)"
      by (rule round_double_of_int)
    then show ?thesis
      by (simp add: js_times_def)
  qed
  have pick: "fst (getRandomSessionNode (\<lambda>k. real d / 100) ex_session ex_world)
                = Inr (Some ([ex_nodeA, ex_nodeB, ex_nodeC] ! (d mod 3)))" if "d < 100" for d
    using getRandomSessionNode_index [of "\<lambda>k. real d / 100" ex_world ex_session] floor [OF that]
    by (simp add: ex_session_def)
  have three: "d mod 3 = 0 \<or> d mod 3 = 1 \<or> d mod 3 = 2" for d :: nat
    by arith
  have A: "([ex_nodeA, ex_nodeB, ex_nodeC] ! (d mod 3) = ex_nodeA) = (d mod 3 = 0)" for d
    using three [of d] by (auto simp: ex_nodeA_def ex_nodeB_def ex_nodeC_def)
  have B: "([ex_nodeA, ex_nodeB, ex_nodeC] ! (d mod 3) = ex_nodeB) = (d mod 3 = 1)" for d
    using three [of d] by (auto simp: ex_nodeA_def ex_nodeB_def ex_nodeC_def)
  have C: "([ex_nodeA, ex_nodeB, ex_nodeC] ! (d mod 3) = ex_nodeC) = (d mod 3 = 2)" for d
    using three [of d] by (auto simp: ex_nodeA_def ex_nodeB_def ex_nodeC_def)
  have fA: "filter (\<lambda>d. fst (getRandomSessionNode (\<lambda>k. real d / 100) ex_session ex_world)
                          = Inr (Some ex_nodeA)) [0..<100] = filter (\<lambda>d. d mod 3 = 0) [0..<100]"
    by (rule filter_cong) (simp_all add: pick A)
  have fB: "filter (\<lambda>d. fst (getRandomSessionNode (\<lambda>k. real d / 100) ex_session ex_world)
                          = Inr (Some ex_nodeB)) [0..<100] = filter (\<lambda>d. d mod 3 = 1) [0..<100]"
    by (rule filter_cong) (simp_all add: pick B)
  have fC: "filter (\<lambda>d. fst (getRandomSessionNode (\<lambda>k. real d / 100) ex_session ex_world)
                          = Inr (Some ex_nodeC)) [0..<100] = filter (\<lambda>d. d mod 3 = 2) [0..<100]"
    by (rule filter_cong) (simp_all add: pick C)
  have n0: "length (filter (\<lambda>d. d mod 3 = 0) [0..<100]) = 34" by code_simp
  have n1: "length (filter (\<lambda>d. d mod 3 = 1) [0..<100]) = 33" by code_simp
  have n2: "length (filter (\<lambda>d. d mod 3 = 2) [0..<100]) = 33" by code_simp
  show ?thesis
    by (simp only: fA fB fC n0 n1 n2)
qed

subsection \<open>The checks of \<^verbatim>\<open>relay\<close>\<close>

text \<open>
  Claim C5, as amended. With a signer configured, a relay for a caller-supplied node whose
  public key is not the public key of a node of the session fails with ``Node is not in
  the current session'' and leaves the state as it was: nothing is hashed, signed or
  sent, and \<^verbatim>\<open>Math.random()\<close> is not called. This holds for the static function and
  for the instance method.
\<close>

theorem relay_node_not_in_session:
  assumes "publicKey n \<notin> publicKey ` set (nodes session)"
  shows "Relayer_relay H rs meanwhile validateRelayResponse blockchain data headers (Some km)
           method (Some n) path pocketAAT provider session w = (Inl NodeNotInSessionError, w)
         \<and> relay H rs meanwhile validateRelayResponse (this\<lparr>this_keyManager := Some km\<rparr>)
             blockchain data headers method (Some n) path pocketAAT session w
           = (Inl NodeNotInSessionError, w)"
  using assms by (simp add: Relayer_relay_def relay_def isNodeInSession_iff)

theorem relay_node_not_in_session_witness:
  "publicKey ex_nodeD \<notin> publicKey ` set (nodes ex_session)
   \<and> Relayer_relay ex_sha3 ex_random ex_meanwhile ex_validate ''0021'' ''{}'' None
       (Some ex_signer) ''POST'' (Some ex_nodeD) '''' ex_aat ex_provider ex_session ex_world
     = (Inl NodeNotInSessionError, ex_world)
   \<and> relay ex_sha3 ex_random ex_meanwhile ex_validate ex_relayer
       ''0021'' ''{}'' None ''POST'' (Some ex_nodeD) '''' ex_aat ex_session ex_world
     = (Inl NodeNotInSessionError, ex_world)"
proof -
  have h: "publicKey ex_nodeD \<notin> publicKey ` set (nodes ex_session)"
    by (simp add: ex_session_def ex_nodeA_def ex_nodeB_def ex_nodeC_def ex_nodeD_def)
  from relay_node_not_in_session [OF h, of ex_sha3 ex_random ex_meanwhile ex_validate "''0021''"
      "''{}''" None ex_signer "''POST''" "''''" ex_aat ex_provider ex_world ex_relayer] h
  show ?thesis by (simp add: ex_relayer_def)
qed

text \<open>
  Without a signer the same call fails with ``You need a signer to send a relay'', which
  is another error.
\<close>

theorem relay_node_not_in_session_counterexample:
  "publicKey ex_nodeD \<notin> publicKey ` set (nodes ex_session)
   \<and> Relayer_relay ex_sha3 ex_random ex_meanwhile ex_validate ''0021'' ''{}'' None None ''POST''
       (Some ex_nodeD) '''' ex_aat ex_provider ex_session ex_world
     = (Inl MissingSignerError, ex_world)
   \<and> MissingSignerError \<noteq> NodeNotInSessionError"
  by (simp add: Relayer_relay_def MissingSignerError_def NodeNotInSessionError_def
        ex_session_def ex_nodeA_def ex_nodeB_def ex_nodeC_def ex_nodeD_def)

text \<open>
  Claim C6. Without a signer both \<^verbatim>\<open>relay\<close> functions fail with ``You need a signer to
  send a relay'' and leave the state as it was: nothing was hashed, signed or sent, and
  \<^verbatim>\<open>Math.random()\<close> was not called.
\<close>

theorem relay_missing_signer:
  "Relayer_relay H rs meanwhile validateRelayResponse blockchain data headers None method node
       path pocketAAT provider session w = (Inl MissingSignerError, w)
   \<and> relay H rs meanwhile validateRelayResponse (this\<lparr>this_keyManager := None\<rparr>) blockchain
       data headers method node path pocketAAT session w = (Inl MissingSignerError, w)"
  by (simp add: Relayer_relay_def relay_def)

theorem relay_missing_signer_witness:
  "Relayer_relay ex_sha3 ex_random ex_meanwhile ex_validate ''0021'' ''{}'' None None ''POST''
       (Some ex_nodeB) '''' ex_aat ex_provider ex_session ex_world
     = (Inl (Error ''You need a signer to send a relay''), \<lparr>drawn = 0, trace = []\<rparr>)
   \<and> relay ex_sha3 ex_random ex_meanwhile ex_validate (ex_relayer\<lparr>this_keyManager := None\<rparr>)
       ''0021'' ''{}'' None ''POST'' (Some ex_nodeB) '''' ex_aat ex_session ex_world
     = (Inl (Error ''You need a signer to send a relay''), \<lparr>drawn = 0, trace = []\<rparr>)"
  using relay_missing_signer [of ex_sha3 ex_random ex_meanwhile ex_validate "''0021''" "''{}''"
      None "''POST''" "Some ex_nodeB" "''''" ex_aat ex_provider ex_session ex_world ex_relayer]
  by (simp add: MissingSignerError_def ex_world_def)

text \<open>
  Claim C7, as amended. With a signer configured, a relay with no node supplied on a
  session without nodes fails with ``Couldn't find a service node.'' after one call of
  \<^verbatim>\<open>Math.random()\<close>; nothing is hashed, signed or sent. This holds for the static
  function and for the instance method.
\<close>

theorem relay_no_service_node:
  assumes "nodes session = []"
  shows "Relayer_relay H rs meanwhile validateRelayResponse blockchain data headers (Some km)
           method None path pocketAAT provider session w
           = (Inl NoServiceNodeError, w\<lparr>drawn := Suc (drawn w)\<rparr>)
         \<and> relay H rs meanwhile validateRelayResponse (this\<lparr>this_keyManager := Some km\<rparr>)
             blockchain data headers method None path pocketAAT session w
           = (Inl NoServiceNodeError, w\<lparr>drawn := Suc (drawn w)\<rparr>)"
  using assms
  by (simp add: Relayer_relay_def relay_def getRandomSessionNode_run js_rem_def array_get_def)

theorem relay_no_service_node_witness:
  "nodes ex_empty_session = []
   \<and> Relayer_relay ex_sha3 ex_random ex_meanwhile ex_validate ''0021'' ''{}'' None
       (Some ex_signer) ''POST'' None '''' ex_aat ex_provider ex_empty_session ex_world
     = (Inl NoServiceNodeError, \<lparr>drawn = 1, trace = []\<rparr>)
   \<and> relay ex_sha3 ex_random ex_meanwhile ex_validate ex_relayer
       ''0021'' ''{}'' None ''POST'' None '''' ex_aat ex_empty_session ex_world
     = (Inl NoServiceNodeError, \<lparr>drawn = 1, trace = []\<rparr>)"
proof -
  have h: "nodes ex_empty_session = []"
    by (simp add: ex_empty_session_def)
  from relay_no_service_node [OF h, of ex_sha3 ex_random ex_meanwhile ex_validate "''0021''"
      "''{}''" None ex_signer "''POST''" "''''" ex_aat ex_provider ex_world ex_relayer] h
  show ?thesis by (simp add: ex_world_def ex_relayer_def)
qed

text \<open>Without a signer the same call fails with the error of the missing signer.\<close>

theorem relay_no_service_node_counterexample:
  "nodes ex_empty_session = []
   \<and> Relayer_relay ex_sha3 ex_random ex_meanwhile ex_validate ''0021'' ''{}'' None None ''POST''
       None '''' ex_aat ex_provider ex_empty_session ex_world
     = (Inl MissingSignerError, ex_world)
   \<and> MissingSignerError \<noteq> NoServiceNodeError"
  by (simp add: Relayer_relay_def MissingSignerError_def NoServiceNodeError_def
        ex_empty_session_def)

subsection \<open>The token of an AAT\<close>

text \<open>
  Claim C8. \<^verbatim>\<open>hashAAT\<close> returns the digest of the JSON text of the object with the
  properties \<^verbatim>\<open>version\<close>, \<^verbatim>\<open>app_pub_key\<close>, \<^verbatim>\<open>client_pub_key\<close> and an empty
  \<^verbatim>\<open>signature\<close>; the second equation spells the text out. The application signature
  of the AAT is not read: an AAT with any other signature has the same digest.
\<close>

theorem hashAAT_ignores_signature:
  "fst (hashAAT H aat w) =
     H (JSON_stringify (JObj
        [(''version'', JStr (version aat)),
         (''app_pub_key'', JStr (applicationPublicKey aat)),
         (''client_pub_key'', JStr (clientPublicKey aat)),
         (''signature'', JStr [])]))
   \<and> fst (hashAAT H aat w) =
     H (''{'' @ JSON_quote ''version'' @ '':'' @ JSON_quote (version aat) @ '','' @
        JSON_quote ''app_pub_key'' @ '':'' @ JSON_quote (applicationPublicKey aat) @ '','' @
        JSON_quote ''client_pub_key'' @ '':'' @ JSON_quote (clientPublicKey aat) @ '','' @
        JSON_quote ''signature'' @ '':'' @ JSON_quote [] @ ''}'')
   \<and> fst (hashAAT H (aat\<lparr>applicationSignature := s\<rparr>) w') = fst (hashAAT H aat w)"
  by (simp add: hashAAT_run tokenJSON_def)

theorem hashAAT_ignores_signature_witness:
  \<open>fst (hashAAT ex_sha3 ex_aat ex_world)
     = ''sha3({"version":"0.0.1","app_pub_key":"a1","client_pub_key":"c1","signature":""})''
   \<and> fst (hashAAT ex_sha3 (ex_aat\<lparr>applicationSignature := ''another signature''\<rparr>) ex_world)
     = ''sha3({"version":"0.0.1","app_pub_key":"a1","client_pub_key":"c1","signature":""})''\<close>
  using hashAAT_ignores_signature [of ex_sha3 ex_aat ex_world "''another signature''" ex_world]
  by (simp add: ex_sha3_def ex_aat_def JSON_quote_def quote_char_def)

subsection \<open>Entropy and the bytes of a proof\<close>

text \<open>
  Claim C9, as amended. The digest that \<^verbatim>\<open>generateProofBytes\<close> returns depends on its
  arguments only, not on the state: the same arguments give the same digest. When two
  entropies are read by \<^verbatim>\<open>Number(x.toString())\<close> as two different safe integers and
  everything else is the same, the two texts that are hashed differ, each digest is the
  hash of its text, and the two digests differ unless the hash has the same value on
  these two texts.
\<close>

theorem generateProofBytes_entropy:
  "fst (generateProofBytes H e h k b aat rh w) = fst (generateProofBytes H e h k b aat rh w')
   \<and> (safe_integer (Number_toString e1) \<and> safe_integer (Number_toString e2)
        \<and> Number_toString e1 \<noteq> Number_toString e2 \<longrightarrow>
        JSON_stringify (proofJSON e1 h k b (fst (hashAAT H aat w)) (fst (hashRequest H rh w)))
          \<noteq> JSON_stringify (proofJSON e2 h k b (fst (hashAAT H aat w)) (fst (hashRequest H rh w)))
      \<and> fst (generateProofBytes H e1 h k b aat rh w)
          = H (JSON_stringify
                (proofJSON e1 h k b (fst (hashAAT H aat w)) (fst (hashRequest H rh w))))
      \<and> fst (generateProofBytes H e2 h k b aat rh w)
          = H (JSON_stringify
                (proofJSON e2 h k b (fst (hashAAT H aat w)) (fst (hashRequest H rh w))))
      \<and> (H (JSON_stringify
               (proofJSON e1 h k b (fst (hashAAT H aat w)) (fst (hashRequest H rh w))))
            \<noteq> H (JSON_stringify
               (proofJSON e2 h k b (fst (hashAAT H aat w)) (fst (hashRequest H rh w))))
          \<longrightarrow> fst (generateProofBytes H e1 h k b aat rh w)
                \<noteq> fst (generateProofBytes H e2 h k b aat rh w)))"
proof -
  have texts: "JSON_stringify (proofJSON e1 h k b t q) \<noteq> JSON_stringify (proofJSON e2 h k b t q)"
    if "safe_integer (Number_toString e1)" "safe_integer (Number_toString e2)"
       "Number_toString e1 \<noteq> Number_toString e2" for t q
    using that proofJSON_text_inject by blast
  show ?thesis
    using texts
    by (simp add: generateProofBytes_run hashAAT_run hashRequest_run del: JSON_stringify.simps)
qed

theorem generateProofBytes_entropy_witness:
  \<open>safe_integer (Number_toString (JSNumber 5)) \<and> safe_integer (Number_toString (JSNumber 6))
   \<and> Number_toString (JSNumber 5) \<noteq> Number_toString (JSNumber 6)
   \<and> fst (generateProofBytes ex_sha3 (JSNumber 5) 17 ''pkA'' ''0021'' ex_aat JNull ex_world)
     = ex_sha3 (''{"entropy":5,"session_block_height":17,"servicer_pub_key":"pkA","blockchain":"0021","signature":"","token":''
         @ JSON_quote (ex_sha3 ''{"version":"0.0.1","app_pub_key":"a1","client_pub_key":"c1","signature":""}'')
         @ '',"request_hash":"sha3(null)"}'')
   \<and> fst (generateProofBytes ex_sha3 (JSNumber 6) 17 ''pkA'' ''0021'' ex_aat JNull ex_world)
     = ex_sha3 (''{"entropy":6,"session_block_height":17,"servicer_pub_key":"pkA","blockchain":"0021","signature":"","token":''
         @ JSON_quote (ex_sha3 ''{"version":"0.0.1","app_pub_key":"a1","client_pub_key":"c1","signature":""}'')
         @ '',"request_hash":"sha3(null)"}'')
   \<and> fst (generateProofBytes ex_sha3 (JSNumber 5) 17 ''pkA'' ''0021'' ex_aat JNull ex_world)
     \<noteq> fst (generateProofBytes ex_sha3 (JSNumber 6) 17 ''pkA'' ''0021'' ex_aat JNull ex_world)\<close>
proof -
  have h: "safe_integer (Number_toString (JSNumber 5)) \<and> safe_integer (Number_toString (JSNumber 6))
        \<and> Number_toString (JSNumber 5) \<noteq> Number_toString (JSNumber 6)"
    by (simp add: number_value_examples safe_integer_def)
  have differ: "ex_sha3 s \<noteq> ex_sha3 t" if "s \<noteq> t" for s t
    using that by (simp add: ex_sha3_def)
  from generateProofBytes_entropy [of ex_sha3 "JSNumber 5" 17 "''pkA''" "''0021''" ex_aat JNull
      ex_world ex_world "JSNumber 5" "JSNumber 6"] h differ
  have "fst (generateProofBytes ex_sha3 (JSNumber 5) 17 ''pkA'' ''0021'' ex_aat JNull ex_world)
     \<noteq> fst (generateProofBytes ex_sha3 (JSNumber 6) 17 ''pkA'' ''0021'' ex_aat JNull ex_world)"
    by blast
  with h show ?thesis
    by (simp add: generateProofBytes_run proofJSON_def tokenJSON_def ex_sha3_def ex_aat_def
          JSON_quote_def quote_char_def number_value_examples JSON_number_examples)
qed

text \<open>
  The number 5 and the bigint \<^verbatim>\<open>5n\<close> are different entropies; the texts that are hashed
  for them are the same, and so are the digests.
\<close>

theorem generateProofBytes_entropy_counterexample:
  "JSNumber 5 \<noteq> JSBigInt 5
   \<and> JSON_stringify (proofJSON (JSNumber 5) 17 ''pkA'' ''0021'' ''t'' ''q'')
     = JSON_stringify (proofJSON (JSBigInt 5) 17 ''pkA'' ''0021'' ''t'' ''q'')
   \<and> fst (generateProofBytes ex_sha3 (JSNumber 5) 17 ''pkA'' ''0021'' ex_aat ex_requestHash ex_world)
     = fst (generateProofBytes ex_sha3 (JSBigInt 5) 17 ''pkA'' ''0021'' ex_aat ex_requestHash ex_world)"
  by (simp add: generateProofBytes_run proofJSON_def del: JSON_stringify.simps)

subsection \<open>Membership by public key\<close>

text \<open>
  Claim C10, as amended. A node is in the session exactly when its public key is the
  public key of a node of the session. With a signer configured, a relay for a
  caller-supplied node with such a public key passes the membership check; when the one
  \<^verbatim>\<open>sign\<close> call of that relay succeeds, the relay hands exactly one request to the
  provider, with the service URL of the supplied node, whatever service URL the session
  records for that public key. This holds for the static function and for the instance
  method. The text in the second hypothesis is the \<open>proofBytes\<close> of the call.
\<close>

theorem relay_supplied_node:
  assumes "publicKey n \<in> publicKey ` set (nodes session)"
      and "sign km (fst (generateProofBytes H
             (JSNumber \<lfloor>js_times (rs (drawn w)) 99999999999999\<rfloor>)
             (Number_toString (header_sessionBlockHeight (header session)))
             (publicKey n) blockchain pocketAAT
             (requestHash_json
                \<lparr>payload_data = data, payload_method = method, payload_path = path,
                   payload_headers = headers\<rparr>
                \<lparr>meta_block_height = Number_toString (header_sessionBlockHeight (header session))\<rparr>)
             w)) = Inr signature"
  shows "(\<forall>n'. isNodeInSession session n' \<longleftrightarrow> publicKey n' \<in> publicKey ` set (nodes session))
       \<and> isNodeInSession session n
       \<and> (\<exists>request.
            sent (trace (snd (Relayer_relay H rs meanwhile validateRelayResponse blockchain data
               headers (Some km) method (Some n) path pocketAAT
               (provider :: 'raw JsonRpcProvider) session w)))
            = sent (trace w) @ [(request, serviceUrl n)])
       \<and> (\<exists>request.
            sent (trace (snd (relay H rs meanwhile validateRelayResponse
               (this\<lparr>this_keyManager := Some km\<rparr>)
               blockchain data headers method (Some n) path pocketAAT session w)))
            = sent (trace w) @ [(request, serviceUrl n)])"
proof -
  have member: "isNodeInSession session n"
    using assms(1) by (simp add: isNodeInSession_iff)
  have static: "\<exists>request.
            sent (trace (snd (Relayer_relay H rs meanwhile validateRelayResponse blockchain data
               headers (Some km) method (Some n) path pocketAAT provider' session w)))
            = sent (trace w) @ [(request, serviceUrl n)]" for provider' :: "'raw JsonRpcProvider"
    using member assms(2)
    by (auto simp: Relayer_relay_def Let_def Math_random_def generateProofBytes_run
          hashRequest_run sent_append
        simp del: JSON_stringify.simps split: sum.splits)
  show ?thesis
    using member static [of provider] static [of "this_provider this"]
    by (simp add: relay_def isNodeInSession_iff)
qed

text \<open>
  The supplied node has the public key of the second node of the session and a service
  URL that no node of the session has; the signer signs the bytes of this proof and
  refuses every other text. The request goes to the URL of the supplied node.
\<close>

theorem relay_supplied_node_witness:
  \<open>publicKey ex_nodeB_moved \<in> publicKey ` set (nodes ex_session)
   \<and> serviceUrl ex_nodeB_moved \<notin> serviceUrl ` set (nodes ex_session)
   \<and> sign (ex_signer_of (ex_sha3 (''{"entropy":49999999999999,"session_block_height":17,"servicer_pub_key":"pkB","blockchain":"0021","signature":"","token":''
         @ JSON_quote (ex_sha3 ''{"version":"0.0.1","app_pub_key":"a1","client_pub_key":"c1","signature":""}'')
         @ '',"request_hash":''
         @ JSON_quote (ex_sha3 ''{"payload":{"data":"{}","method":"POST","path":"","headers":null},"meta":{"block_height":17}}'')
         @ ''}''))) ''another text'' = Inl (Error ''refused'')
   \<and> isNodeInSession ex_session ex_nodeB_moved
   \<and> (\<exists>request.
        sent (trace (snd (Relayer_relay ex_sha3 ex_random ex_meanwhile ex_validate ''0021'' ''{}''
           None
           (Some (ex_signer_of (ex_sha3 (''{"entropy":49999999999999,"session_block_height":17,"servicer_pub_key":"pkB","blockchain":"0021","signature":"","token":''
             @ JSON_quote (ex_sha3 ''{"version":"0.0.1","app_pub_key":"a1","client_pub_key":"c1","signature":""}'')
             @ '',"request_hash":''
             @ JSON_quote (ex_sha3 ''{"payload":{"data":"{}","method":"POST","path":"","headers":null},"meta":{"block_height":17}}'')
             @ ''}''))))
           ''POST'' (Some ex_nodeB_moved) '''' ex_aat ex_provider ex_session ex_world)))
        = [(request, ''https://elsewhere.example'')])\<close>
proof -
  let ?bytes = \<open>ex_sha3 (''{"entropy":49999999999999,"session_block_height":17,"servicer_pub_key":"pkB","blockchain":"0021","signature":"","token":''
         @ JSON_quote (ex_sha3 ''{"version":"0.0.1","app_pub_key":"a1","client_pub_key":"c1","signature":""}'')
         @ '',"request_hash":''
         @ JSON_quote (ex_sha3 ''{"payload":{"data":"{}","method":"POST","path":"","headers":null},"meta":{"block_height":17}}'')
         @ ''}'')\<close>
  have h1: "publicKey ex_nodeB_moved \<in> publicKey ` set (nodes ex_session)"
    by (simp add: ex_session_def ex_nodeA_def ex_nodeB_def ex_nodeC_def ex_nodeB_moved_def)
  have bytes: "fst (generateProofBytes ex_sha3
             (JSNumber \<lfloor>js_times (ex_random (drawn ex_world)) 99999999999999\<rfloor>)
             (Number_toString (header_sessionBlockHeight (header ex_session)))
             (publicKey ex_nodeB_moved) ''0021'' ex_aat
             (requestHash_json
                \<lparr>payload_data = ''{}'', payload_method = ''POST'', payload_path = '''',
                   payload_headers = None\<rparr>
                \<lparr>meta_block_height = Number_toString (header_sessionBlockHeight (header ex_session))\<rparr>)
             ex_world) = ?bytes"
    by (simp add: generateProofBytes_run proofJSON_def tokenJSON_def requestHash_json_def
          RelayPayload_json_def RelayMeta_json_def headers_json_def JSON_quote_def quote_char_def
          ex_entropy number_value_examples JSON_number_examples
          ex_sha3_def ex_random_def ex_nodeB_moved_def ex_aat_def ex_session_def ex_world_def)
  have h2: "sign (ex_signer_of ?bytes) (fst (generateProofBytes ex_sha3
             (JSNumber \<lfloor>js_times (ex_random (drawn ex_world)) 99999999999999\<rfloor>)
             (Number_toString (header_sessionBlockHeight (header ex_session)))
             (publicKey ex_nodeB_moved) ''0021'' ex_aat
             (requestHash_json
                \<lparr>payload_data = ''{}'', payload_method = ''POST'', payload_path = '''',
                   payload_headers = None\<rparr>
                \<lparr>meta_block_height = Number_toString (header_sessionBlockHeight (header ex_session))\<rparr>)
             ex_world)) = Inr ''signature''"
    by (simp only: bytes) (simp add: ex_signer_of_def)
  have h3: "serviceUrl ex_nodeB_moved \<notin> serviceUrl ` set (nodes ex_session)"
    by (simp add: ex_session_def ex_nodeA_def ex_nodeB_def ex_nodeC_def ex_nodeB_moved_def)
  have h4: "sign (ex_signer_of ?bytes) ''another text'' = Inl (Error ''refused'')"
    by (simp add: ex_signer_of_def ex_sha3_def)
  have "\<exists>request.
        sent (trace (snd (Relayer_relay ex_sha3 ex_random ex_meanwhile ex_validate ''0021'' ''{}''
           None (Some (ex_signer_of ?bytes)) ''POST'' (Some ex_nodeB_moved) '''' ex_aat
           ex_provider ex_session ex_world)))
        = sent (trace ex_world) @ [(request, serviceUrl ex_nodeB_moved)]"
    using relay_supplied_node [where n = ex_nodeB_moved and session = ex_session
        and km = "ex_signer_of ?bytes" and H = ex_sha3 and rs = ex_random and w = ex_world
        and blockchain = "''0021''" and pocketAAT = ex_aat and data = "''{}''"
        and path = "''''" and headers = None
        and signature = "''signature''" and meanwhile = ex_meanwhile
        and validateRelayResponse = ex_validate and provider = ex_provider] h1 h2
    by blast
  moreover have "isNodeInSession ex_session ex_nodeB_moved"
    using h1 by (simp add: isNodeInSession_iff)
  ultimately show ?thesis
    using h1 h3 h4 by (simp add: ex_world_def ex_nodeB_moved_def)
qed

text \<open>Without a signer the same relay fails and hands nothing to the provider.\<close>

theorem relay_supplied_node_counterexample:
  "publicKey ex_nodeB_moved \<in> publicKey ` set (nodes ex_session)
   \<and> Relayer_relay ex_sha3 ex_random ex_meanwhile ex_validate ''0021'' ''{}'' None None ''POST''
       (Some ex_nodeB_moved) '''' ex_aat ex_provider ex_session ex_world
     = (Inl MissingSignerError, ex_world)
   \<and> sent (trace ex_world) = []"
  by (simp add: Relayer_relay_def ex_session_def ex_nodeA_def ex_nodeB_def ex_nodeC_def
        ex_nodeB_moved_def ex_world_def)

end
